theory Spec2Isabelle
  imports Main "HOL-Library.Sublist"
begin

section \<open>Python strings and paths\<close>

text \<open>
  A Python \<open>str\<close> stands as the bytes of its UTF-8 encoding, a \<open>string\<close>; the
  encoding is well formed, so a code point begins or ends a text exactly when its
  encoding is a prefix or a suffix of the bytes. \<open>str.startswith\<close> is \<open>prefix\<close>,
  \<open>str.endswith\<close> is \<open>suffix\<close> and the substring test \<open>in\<close> is \<open>sublist\<close>.
\<close>

text \<open>The code points for which \<open>str.isspace\<close> holds, each as its encoding: U+0009 to
  U+000D, U+001C to U+001F, U+0020, U+0085, U+00A0, U+1680, U+2000 to U+200A, U+2028,
  U+2029, U+202F, U+205F and U+3000.\<close>

definition whitespace :: "string list" where
  "whitespace =
     [[CHR 0x09], [CHR 0x0A], [CHR 0x0B], [CHR 0x0C], [CHR 0x0D],
      [CHR 0x1C], [CHR 0x1D], [CHR 0x1E], [CHR 0x1F], [CHR 0x20],
      [CHR 0xC2, CHR 0x85], [CHR 0xC2, CHR 0xA0],
      [CHR 0xE1, CHR 0x9A, CHR 0x80],
      [CHR 0xE2, CHR 0x80, CHR 0x80], [CHR 0xE2, CHR 0x80, CHR 0x81],
      [CHR 0xE2, CHR 0x80, CHR 0x82], [CHR 0xE2, CHR 0x80, CHR 0x83],
      [CHR 0xE2, CHR 0x80, CHR 0x84], [CHR 0xE2, CHR 0x80, CHR 0x85],
      [CHR 0xE2, CHR 0x80, CHR 0x86], [CHR 0xE2, CHR 0x80, CHR 0x87],
      [CHR 0xE2, CHR 0x80, CHR 0x88], [CHR 0xE2, CHR 0x80, CHR 0x89],
      [CHR 0xE2, CHR 0x80, CHR 0x8A],
      [CHR 0xE2, CHR 0x80, CHR 0xA8], [CHR 0xE2, CHR 0x80, CHR 0xA9],
      [CHR 0xE2, CHR 0x80, CHR 0xAF],
      [CHR 0xE2, CHR 0x81, CHR 0x9F],
      [CHR 0xE3, CHR 0x80, CHR 0x80]]"

text \<open>\<open>str.lstrip()\<close>: whitespace is removed from the front, one code point at a time,
  until the text starts with none.\<close>

function lstrip :: "string \<Rightarrow> string" where
  "lstrip s =
     (case find (\<lambda>w. prefix w s) whitespace of
        None \<Rightarrow> s
      | Some w \<Rightarrow> lstrip (drop (length w) s))"
  by pat_completeness auto
termination
proof (relation "measure length")
  show "wf (measure length)" by simp
next
  fix s w
  assume "find (\<lambda>w. prefix w s) whitespace = Some w"
  then have "w \<in> set whitespace" and "prefix w s"
    by (auto simp: find_Some_iff)
  then have "w \<noteq> []" and "length w \<le> length s"
    by (auto simp: whitespace_def prefix_length_le)
  then show "(drop (length w) s, s) \<in> measure length"
    by (cases s) auto
qed

text \<open>\<open>str.rstrip()\<close>: the same from the back.\<close>

function rstrip :: "string \<Rightarrow> string" where
  "rstrip s =
     (case find (\<lambda>w. suffix w s) whitespace of
        None \<Rightarrow> s
      | Some w \<Rightarrow> rstrip (take (length s - length w) s))"
  by pat_completeness auto
termination
proof (relation "measure length")
  show "wf (measure length)" by simp
next
  fix s w
  assume "find (\<lambda>w. suffix w s) whitespace = Some w"
  then have "w \<in> set whitespace" and "suffix w s"
    by (auto simp: find_Some_iff)
  then have "w \<noteq> []" and "length w \<le> length s"
    by (auto simp: whitespace_def suffix_length_le)
  then show "(take (length s - length w) s, s) \<in> measure length"
    by (cases s) auto
qed

declare lstrip.simps [simp del] rstrip.simps [simp del]

text \<open>\<open>str.strip()\<close>: leading and trailing whitespace removed.\<close>

definition strip :: "string \<Rightarrow> string" where
  "strip s = rstrip (lstrip s)"

text \<open>\<open>str.upper()\<close> on ASCII letters; the script applies it to the supported formats
  only.\<close>

definition upper_char :: "char \<Rightarrow> char" where
  "upper_char c =
     (if (97::nat) \<le> of_char c \<and> (of_char c :: nat) \<le> 122
      then char_of ((of_char c :: nat) - 32) else c)"

definition upper :: "string \<Rightarrow> string" where
  "upper s = map upper_char s"

text \<open>\<open>s.split(sep, 1)\<close> for a separator of one character: at most one cut, at the
  first occurrence.\<close>

definition split1 :: "char \<Rightarrow> string \<Rightarrow> string list" where
  "split1 sep s =
     (if sep \<in> set s then [takeWhile (\<lambda>c. c \<noteq> sep) s, tl (dropWhile (\<lambda>c. c \<noteq> sep) s)]
      else [s])"

text \<open>\<open>str(n)\<close> for a length.\<close>

fun str_of_nat :: "nat \<Rightarrow> string" where
  "str_of_nat n =
     (if n < 10 then [char_of (48 + n)]
      else str_of_nat (n div 10) @ [char_of (48 + n mod 10)])"

text \<open>\<open>os.path.join\<close> of two components on POSIX.\<close>

definition path_join :: "string \<Rightarrow> string \<Rightarrow> string" where
  "path_join a b =
     (if prefix ''/'' b then b
      else if a = [] \<or> suffix ''/'' a then a @ b
      else a @ ''/'' @ b)"

text \<open>\<open>os.path.relpath(path, start)\<close> for a path below \<open>start\<close>, as \<open>os.walk\<close>
  builds them: the components after \<open>start\<close>.\<close>

definition relpath :: "string \<Rightarrow> string \<Rightarrow> string" where
  "relpath path start =
     (if prefix (start @ ''/'') path then drop (length start + 1) path else path)"

section \<open>The file system\<close>

text \<open>
  A directory holds the names of its files and its subdirectories, in the order
  \<open>os.scandir\<close> lists them. The file system maps the path of a directory of the
  working directory to its tree; the bot only ever names \<open>downloads\<close>.
\<close>

datatype dirtree = Dir (files: "string list") (subdirs: "(string \<times> dirtree) list")

type_synonym filesystem = "string \<rightharpoonup> dirtree"

definition path_exists :: "filesystem \<Rightarrow> string \<Rightarrow> bool" where
  "path_exists fs p = (fs p \<noteq> None)"

definition rmtree :: "filesystem \<Rightarrow> string \<Rightarrow> filesystem" where
  "rmtree fs p = fs(p := None)"

text \<open>\<open>os.makedirs(p, exist_ok=True)\<close>.\<close>

definition makedirs :: "filesystem \<Rightarrow> string \<Rightarrow> filesystem" where
  "makedirs fs p = (if path_exists fs p then fs else fs(p \<mapsto> Dir [] []))"

text \<open>\<open>os.walk(top)\<close>, top-down: the triple of the directory itself, then the walk of
  each subdirectory in turn.\<close>

fun walk :: "string \<Rightarrow> dirtree \<Rightarrow> (string \<times> string list \<times> string list) list" where
  "walk dirpath (Dir fs ds) =
     (dirpath, map fst ds, fs) # concat (map (\<lambda>(d, t). walk (path_join dirpath d) t) ds)"

text \<open>A path that is no directory yields nothing (\<open>os.walk\<close> ignores the error).\<close>

definition os_walk :: "filesystem \<Rightarrow> string \<Rightarrow> (string \<times> string list \<times> string list) list" where
  "os_walk fs dirpath = (case fs dirpath of None \<Rightarrow> [] | Some t \<Rightarrow> walk dirpath t)"

section \<open>The world outside the script\<close>

text \<open>
  Exceptions are values. A call that the source makes inside a \<open>try\<close> statement can
  raise: \<open>subprocess.run\<close> in \<open>run_spotdl\<close>, \<open>edit_message_text\<close> in \<open>safe_edit_text\<close>,
  and \<open>reply_document\<close>, \<open>reply_audio\<close> and the \<open>reply_text\<close> of the \<open>except\<close> clause
  in \<open>button_handler\<close>. The other awaits, \<open>query.answer\<close> and the replies of
  \<open>handle_message\<close>, are taken to complete. File-system calls on a path that was just
  listed or created are taken to succeed.
\<close>

datatype exn = TimeoutExpired | BadRequest string | IndexError | OtherException string

text \<open>Every call on the outside is recorded, in order, with its arguments:
  \<^item> \<open>AnswerCallbackQuery text show_alert\<close>: \<open>query.answer\<close>;
  \<^item> \<open>EditMessageText text parse_mode\<close>: \<open>query.edit_message_text\<close>;
  \<^item> \<open>ReplyText text reply_markup parse_mode\<close>: \<open>message.reply_text\<close>, the keyboard as
    rows of buttons (label, callback data);
  \<^item> \<open>ReplyDocument filename entries caption parse_mode\<close>: \<open>message.reply_document\<close> of
    the zip archive whose members are (file path, archive name);
  \<^item> \<open>ReplyAudio file_path caption parse_mode\<close>: \<open>message.reply_audio\<close> of one file;
  \<^item> \<open>SubprocessRun command timeout\<close>: \<open>subprocess.run\<close>.\<close>

datatype effect =
    AnswerCallbackQuery "string option" bool
  | EditMessageText string "string option"
  | ReplyText string "(string \<times> string) list list option" "string option"
  | ReplyDocument string "(string \<times> string) list" string "string option"
  | ReplyAudio string string "string option"
  | SubprocessRun "string list" nat

text \<open>What \<open>subprocess.run\<close> does: it returns a completed process (return code and
  standard error) or raises.\<close>

datatype run_result = CompletedProcess int string | Raises exn

text \<open>The outside world: the external command, acting on the file system, and the
  answer of Telegram to each call (\<open>None\<close>: the call completes).\<close>

record world =
  subprocess_run :: "string list \<Rightarrow> filesystem \<Rightarrow> run_result \<times> filesystem"
  telegram :: "effect \<Rightarrow> exn option"

section \<open>The state of the script\<close>

text \<open>The value stored for a user is the dict \<open>{"url": message}\<close>.\<close>

record pending =
  url :: string

record state =
  pending_downloads :: "int \<rightharpoonup> pending"
  disk :: filesystem
  effects :: "effect list"

definition perform :: "state \<Rightarrow> effect \<Rightarrow> state" where
  "perform s c = s\<lparr>effects := effects s @ [c]\<rparr>"

definition SUPPORTED_FORMATS :: "string list" where
  "SUPPORTED_FORMATS = [''mp3'', ''m4a'', ''flac'', ''opus'']"

section \<open>run\_spotdl\<close>

text \<open>The inner loop of lines 72-74: the files of one directory, appended when their
  name ends with the extension.\<close>

fun collect_files :: "string \<Rightarrow> string \<Rightarrow> string list \<Rightarrow> string list \<Rightarrow> string list" where
  "collect_files dirpath ext [] downloaded_files = downloaded_files"
| "collect_files dirpath ext (file # rest) downloaded_files =
     collect_files dirpath ext rest
       (if suffix ext file then downloaded_files @ [path_join dirpath file]
        else downloaded_files)"

text \<open>The outer loop of line 71, over the triples of \<open>os.walk\<close>.\<close>

fun collect_walk ::
  "string \<Rightarrow> (string \<times> string list \<times> string list) list \<Rightarrow> string list \<Rightarrow> string list" where
  "collect_walk ext [] downloaded_files = downloaded_files"
| "collect_walk ext ((dirpath, dirnames, filenames) # rest) downloaded_files =
     collect_walk ext rest (collect_files dirpath ext filenames downloaded_files)"

definition spotdl_command :: "string \<Rightarrow> string \<Rightarrow> string \<Rightarrow> string list" where
  "spotdl_command url_arg audio_format download_dir =
     [''spotdl'', url_arg, ''--output'', download_dir, ''--overwrite'', ''skip'',
      ''--format'', audio_format]"

text \<open>Lines 44-77. The result is the returned list, or the exception that escapes.\<close>

definition run_spotdl ::
  "world \<Rightarrow> state \<Rightarrow> string \<Rightarrow> string \<Rightarrow> string \<Rightarrow> (exn + string list) \<times> state" where
  "run_spotdl w s url_arg audio_format download_dir =
     (let fs1 = (if path_exists (disk s) download_dir then rmtree (disk s) download_dir
                 else disk s);
          fs2 = makedirs fs1 download_dir;
          command = spotdl_command url_arg audio_format download_dir;
          (result, fs3) = subprocess_run w command fs2;
          s' = (perform s (SubprocessRun command 300))\<lparr>disk := fs3\<rparr>
      in case result of
           Raises TimeoutExpired \<Rightarrow> (Inr [], s')
         | Raises e \<Rightarrow> (Inl e, s')
         | CompletedProcess returncode stderr \<Rightarrow>
             if returncode \<noteq> 0 then (Inr [], s')
             else (Inr (collect_walk (''.'' @ audio_format) (os_walk fs3 download_dir) []), s'))"

section \<open>The texts of the replies\<close>

text \<open>The pictographs that open the replies, as UTF-8: musical note, exclamation mark,
  warning sign with its variation selector, cross mark, downwards double triangle and
  check mark.\<close>

definition choose_format_text :: string where
  "choose_format_text =
     [CHR 0xF0, CHR 0x9F, CHR 0x8E, CHR 0xB5] @ '' *Choose your preferred audio format:*''"

definition invalid_url_text :: string where
  "invalid_url_text =
     [CHR 0xE2, CHR 0x9D, CHR 0x97]
     @ '' Please send a valid Spotify track, playlist, or album URL.''"

definition help_menu_text :: string where
  "help_menu_text =
     ''*Help Menu*'' @ [CHR 0x0A, CHR 0x0A] @ ''Send a Spotify link to download music.''
     @ [CHR 0x0A] @ ''After sending, choose your format.''
     @ [CHR 0x0A] @ ''Use /status to check bot status.''"

definition operational_text :: string where
  "operational_text =
     [CHR 0xE2, CHR 0x9C, CHR 0x85]
     @ '' Bot is operational and ready to download Spotify music.''"

definition no_pending_text :: string where
  "no_pending_text =
     [CHR 0xE2, CHR 0x9A, CHR 0xA0, CHR 0xEF, CHR 0xB8, CHR 0x8F]
     @ '' No pending downloads. Send a Spotify link first.''"

definition invalid_format_text :: string where
  "invalid_format_text = [CHR 0xE2, CHR 0x9D, CHR 0x8C] @ '' Invalid format selected.''"

definition downloading_text :: "string \<Rightarrow> string" where
  "downloading_text selected_format =
     [CHR 0xE2, CHR 0x8F, CHR 0xAC] @ '' Downloading in *'' @ upper selected_format
     @ ''* format. Please wait...''"

definition failed_download_text :: string where
  "failed_download_text =
     [CHR 0xE2, CHR 0x9D, CHR 0x8C] @ '' Failed to download. Try again later.''"

definition zip_caption :: "nat \<Rightarrow> string \<Rightarrow> string" where
  "zip_caption n selected_format =
     [CHR 0xE2, CHR 0x9C, CHR 0x85] @ '' Downloaded '' @ str_of_nat n @ '' tracks in *''
     @ upper selected_format @ ''* format.''"

definition audio_caption :: "string \<Rightarrow> string" where
  "audio_caption selected_format =
     [CHR 0xE2, CHR 0x9C, CHR 0x85] @ '' Here's your track in *'' @ upper selected_format
     @ ''* format!''"

definition failed_send_text :: string where
  "failed_send_text =
     [CHR 0xE2, CHR 0x9D, CHR 0x8C] @ '' Failed to send file(s). Try again.''"

section \<open>handle\_message\<close>

definition valid_prefixes :: "string list" where
  "valid_prefixes =
     [''https://open.spotify.com/track/'',
      ''https://open.spotify.com/playlist/'',
      ''https://open.spotify.com/album/'',
      ''spotify:track:'',
      ''spotify:playlist:'',
      ''spotify:album:'']"

text \<open>Lines 116-144. \<open>any(message.startswith(prefix) for prefix in valid_prefixes)\<close> is
  \<open>list_ex\<close> over the prefixes.\<close>

definition handle_message :: "state \<Rightarrow> int \<Rightarrow> string \<Rightarrow> state" where
  "handle_message s user_id text =
     (let message = strip text in
      if list_ex (\<lambda>p. prefix p message) valid_prefixes then
        (let s1 = s\<lparr>pending_downloads := (pending_downloads s)(user_id \<mapsto> \<lparr>url = message\<rparr>)\<rparr>;
             keyboard = [map (\<lambda>fmt. (upper fmt, ''format_'' @ fmt)) SUPPORTED_FORMATS]
         in perform s1 (ReplyText choose_format_text (Some keyboard) (Some ''Markdown'')))
      else perform s (ReplyText invalid_url_text None None))"

section \<open>button\_handler\<close>

text \<open>Lines 153-160: a \<open>BadRequest\<close> whose text contains \<open>Message is not modified\<close> is
  swallowed, any other exception escapes.\<close>

definition safe_edit_text ::
  "world \<Rightarrow> state \<Rightarrow> string \<Rightarrow> string option \<Rightarrow> exn option \<times> state" where
  "safe_edit_text w s message_text parse_mode =
     (let c = EditMessageText message_text parse_mode; s' = perform s c in
      case telegram w c of
        None \<Rightarrow> (None, s')
      | Some (BadRequest e) \<Rightarrow>
          if sublist ''Message is not modified'' e then (None, s')
          else (Some (BadRequest e), s')
      | Some e \<Rightarrow> (Some e, s'))"

text \<open>Lines 194-196 and again 225-227: the record of the user is popped and the
  directory removed when it exists.\<close>

definition cleanup :: "state \<Rightarrow> int \<Rightarrow> state" where
  "cleanup s user_id =
     s\<lparr>pending_downloads := (pending_downloads s)(user_id := None),
       disk := (if path_exists (disk s) ''downloads'' then rmtree (disk s) ''downloads''
                else disk s)\<rparr>"

text \<open>The body of the \<open>try\<close>, lines 200-220: the call that sends the files, and what
  it raises.\<close>

definition send_files ::
  "world \<Rightarrow> state \<Rightarrow> string \<Rightarrow> string list \<Rightarrow> exn option \<times> state" where
  "send_files w s selected_format downloaded_files =
     (if length downloaded_files > 1 then
        (let entries = map (\<lambda>filepath. (filepath, relpath filepath ''downloads''))
                         downloaded_files;
             c = ReplyDocument (''spotify_download.'' @ selected_format @ ''.zip'') entries
                   (zip_caption (length downloaded_files) selected_format) (Some ''Markdown'')
         in (telegram w c, perform s c))
      else
        (case downloaded_files of
           [] \<Rightarrow> (Some IndexError, s)
         | file_path # _ \<Rightarrow>
             (let c = ReplyAudio file_path (audio_caption selected_format) (Some ''Markdown'')
              in (telegram w c, perform s c))))"

text \<open>Lines 147-229. The result is the exception that escapes the handler, if any, and
  the state it leaves.\<close>

definition button_handler ::
  "world \<Rightarrow> state \<Rightarrow> int \<Rightarrow> string \<Rightarrow> exn option \<times> state" where
  "button_handler w s user_id data =
     (let s0 = perform s (AnswerCallbackQuery None False) in
      if data = ''help'' then safe_edit_text w s0 help_menu_text (Some ''Markdown'')
      else if data = ''status'' then safe_edit_text w s0 operational_text None
      else if prefix ''format_'' data then
        (case pending_downloads s0 user_id of
           None \<Rightarrow> safe_edit_text w s0 no_pending_text None
         | Some entry \<Rightarrow>
             (case split1 CHR ''_'' data of
                _ # selected_format # _ \<Rightarrow>
                  if selected_format \<notin> set SUPPORTED_FORMATS
                  then safe_edit_text w s0 invalid_format_text None
                  else
                    (case safe_edit_text w s0 (downloading_text selected_format)
                            (Some ''Markdown'') of
                       (Some e, s1) \<Rightarrow> (Some e, s1)
                     | (None, s1) \<Rightarrow>
                         (case run_spotdl w s1 (url entry) selected_format ''downloads'' of
                            (Inl e, s2) \<Rightarrow> (Some e, s2)
                          | (Inr downloaded_files, s2) \<Rightarrow>
                              if downloaded_files = [] then
                                (case safe_edit_text w s2 failed_download_text None of
                                   (Some e, s3) \<Rightarrow> (Some e, s3)
                                 | (None, s3) \<Rightarrow> (None, cleanup s3 user_id))
                              else
                                (case send_files w s2 selected_format downloaded_files of
                                   (None, s3) \<Rightarrow> (None, cleanup s3 user_id)
                                 | (Some e, s3) \<Rightarrow>
                                     (let c = ReplyText failed_send_text None None
                                      in (telegram w c, cleanup (perform s3 c) user_id)))))
              | _ \<Rightarrow> (Some IndexError, s0)))
      else (None, perform s0 (AnswerCallbackQuery (Some ''Unknown action.'') True)))"

section \<open>What the walk is compared with\<close>

text \<open>\<open>file_below p t r f\<close>: in the tree \<open>t\<close> found at path \<open>p\<close>, the directory of path
  \<open>r\<close> holds a file named \<open>f\<close>, at any depth. \<open>files_under fs d\<close> are all the files at or
  below the directory \<open>d\<close> of the file system, each as the path of its directory and
  its name.\<close>

fun file_below :: "string \<Rightarrow> dirtree \<Rightarrow> string \<Rightarrow> string \<Rightarrow> bool" where
  "file_below p (Dir fs ds) r f =
     ((r = p \<and> f \<in> set fs) \<or> (\<exists>x \<in> set ds. file_below (path_join p (fst x)) (snd x) r f))"

definition files_under :: "filesystem \<Rightarrow> string \<Rightarrow> (string \<times> string) set" where
  "files_under fs d = (case fs d of None \<Rightarrow> {} | Some t \<Rightarrow> {(r, f). file_below d t r f})"

section \<open>Reading the record of calls\<close>

fun is_document :: "effect \<Rightarrow> bool" where
  "is_document (ReplyDocument filename entries caption parse_mode) = True"
| "is_document _ = False"

fun is_audio :: "effect \<Rightarrow> bool" where
  "is_audio (ReplyAudio file_path caption parse_mode) = True"
| "is_audio _ = False"

section \<open>Sample runs\<close>

text \<open>A user who has sent a link, on an empty working directory.\<close>

definition waiting_state :: state where
  "waiting_state =
     \<lparr>pending_downloads = [7 \<mapsto> \<lparr>url = ''spotify:track:x''\<rparr>], disk = Map.empty, effects = []\<rparr>"

text \<open>The downloader writes two tracks and a text file, at two depths, and exits with
  0; Telegram accepts every call.\<close>

definition album_tree :: dirtree where
  "album_tree = Dir [''a.mp3'', ''b.txt''] [(''sub'', Dir [''c.mp3''] [])]"

definition album_world :: world where
  "album_world =
     \<lparr>subprocess_run = (\<lambda>command fs. (CompletedProcess 0 [], fs(''downloads'' \<mapsto> album_tree))),
      telegram = (\<lambda>c. None)\<rparr>"

text \<open>The downloader exits with 1, having written nothing, and the message that
  carried the buttons is gone when the failure is to be reported.\<close>

definition lost_message_world :: world where
  "lost_message_world =
     \<lparr>subprocess_run = (\<lambda>command fs. (CompletedProcess 1 ''error'', fs)),
      telegram = (\<lambda>c. if c = EditMessageText failed_download_text None
                        then Some (BadRequest ''Message to edit not found'') else None)\<rparr>"

text \<open>The downloader exits with 1, having written nothing; Telegram accepts every
  call.\<close>

definition failed_download_world :: world where
  "failed_download_world =
     \<lparr>subprocess_run = (\<lambda>command fs. (CompletedProcess 1 ''error'', fs)),
      telegram = (\<lambda>c. None)\<rparr>"

text \<open>The downloader writes the album, and Telegram refuses the archive and then the
  text that reports the refusal.\<close>

definition refusing_world :: world where
  "refusing_world =
     \<lparr>subprocess_run = (\<lambda>command fs. (CompletedProcess 0 [], fs(''downloads'' \<mapsto> album_tree))),
      telegram = (\<lambda>c. if is_document c \<or> c = ReplyText failed_send_text None None
                        then Some (OtherException ''Request Entity Too Large'') else None)\<rparr>"

text \<open>A link between a no-break space and a space in front and an ideographic space
  and a line feed behind.\<close>

definition padded_link :: string where
  "padded_link =
     [CHR 0xC2, CHR 0xA0] @ '' spotify:track:abc'' @ [CHR 0xE3, CHR 0x80, CHR 0x80, CHR 0x0A]"

section \<open>Facts about the helpers\<close>

lemma strip_samples:
  "strip padded_link = ''spotify:track:abc''"
  "strip '' spotify:track:abc'' = ''spotify:track:abc''"
  "strip (''spotify:album:new'' @ [CHR 0xE3, CHR 0x80, CHR 0x80]) = ''spotify:album:new''"
  "strip ''hello'' = ''hello''"
  "strip ''https://open.spotify.com/artist/1'' = ''https://open.spotify.com/artist/1''"
  by code_simp+


lemma upper_formats:
  "upper ''mp3'' = ''MP3''" "upper ''m4a'' = ''M4A''"
  "upper ''flac'' = ''FLAC''" "upper ''opus'' = ''OPUS''"
  by code_simp+

lemma valid_prefixes_iff:
  "list_ex (\<lambda>p. prefix p m) valid_prefixes \<longleftrightarrow>
     prefix ''https://open.spotify.com/track/'' m \<or>
     prefix ''https://open.spotify.com/playlist/'' m \<or>
     prefix ''https://open.spotify.com/album/'' m \<or>
     prefix ''spotify:track:'' m \<or>
     prefix ''spotify:playlist:'' m \<or>
     prefix ''spotify:album:'' m"
  by (simp add: valid_prefixes_def)

lemma handle_message_when_valid:
  "list_ex (\<lambda>p. prefix p (strip text)) valid_prefixes \<Longrightarrow>
   handle_message s uid text =
     s\<lparr>pending_downloads := (pending_downloads s)(uid \<mapsto> \<lparr>url = strip text\<rparr>),
       effects := effects s @ [ReplyText choose_format_text
          (Some [[(''MP3'', ''format_mp3''), (''M4A'', ''format_m4a''),
                  (''FLAC'', ''format_flac''), (''OPUS'', ''format_opus'')]])
          (Some ''Markdown'')]\<rparr>"
  by (simp add: handle_message_def perform_def SUPPORTED_FORMATS_def upper_formats)

lemma handle_message_when_invalid:
  "\<not> list_ex (\<lambda>p. prefix p (strip text)) valid_prefixes \<Longrightarrow>
   handle_message s uid text = s\<lparr>effects := effects s @ [ReplyText invalid_url_text None None]\<rparr>"
  by (simp add: handle_message_def perform_def)

lemma fresh_dir:
  "makedirs (if path_exists fs d then rmtree fs d else fs) d = fs(d \<mapsto> Dir [] [])"
  by (auto simp: makedirs_def path_exists_def rmtree_def fun_eq_iff)

lemma set_collect_files:
  "set (collect_files r ext fs acc) = set acc \<union> {path_join r f | f. f \<in> set fs \<and> suffix ext f}"
  by (induction fs arbitrary: acc) auto

lemma set_collect_walk:
  "set (collect_walk ext ts acc) =
     set acc \<union> {path_join r f | r f. \<exists>ds fs. (r, ds, fs) \<in> set ts \<and> f \<in> set fs \<and> suffix ext f}"
proof (induction ts arbitrary: acc)
  case Nil
  then show ?case by simp
next
  case (Cons t ts)
  obtain r ds fs where t: "t = (r, ds, fs)" by (cases t)
  show ?case unfolding t by (simp add: Cons.IH set_collect_files) blast
qed

lemma walk_file_below:
  "(\<exists>ds fs. (r, ds, fs) \<in> set (walk p t) \<and> f \<in> set fs) \<longleftrightarrow> file_below p t r f"
proof (induction p t rule: walk.induct)
  case (1 p fs ds)
  have IH: "(\<exists>ds' fs'. (r, ds', fs') \<in> set (walk (path_join p (fst x)) (snd x)) \<and> f \<in> set fs')
              \<longleftrightarrow> file_below (path_join p (fst x)) (snd x) r f"
    if "x \<in> set ds" for x
    using 1 [of x "fst x" "snd x"] that by simp
  have "(\<exists>ds' fs'. (r, ds', fs') \<in> set (walk p (Dir fs ds)) \<and> f \<in> set fs') \<longleftrightarrow>
        (r = p \<and> f \<in> set fs) \<or>
        (\<exists>x \<in> set ds. \<exists>ds' fs'. (r, ds', fs') \<in> set (walk (path_join p (fst x)) (snd x))
                              \<and> f \<in> set fs')"
    by (auto simp: case_prod_beta)
  also have "\<dots> \<longleftrightarrow> file_below p (Dir fs ds) r f"
    using IH by auto
  finally show ?case .
qed

lemma set_collected:
  "set (collect_walk ext (os_walk fs d) []) =
     {path_join r f | r f. (r, f) \<in> files_under fs d \<and> suffix ext f}"
proof (cases "fs d")
  case None
  then show ?thesis by (simp add: os_walk_def files_under_def)
next
  case (Some t)
  have "set (collect_walk ext (walk d t) []) =
        {path_join r f | r f. (\<exists>ds fs. (r, ds, fs) \<in> set (walk d t) \<and> f \<in> set fs) \<and> suffix ext f}"
    by (simp add: set_collect_walk) blast
  also have "\<dots> = {path_join r f | r f. file_below d t r f \<and> suffix ext f}"
    by (simp only: walk_file_below)
  finally show ?thesis using Some by (simp add: os_walk_def files_under_def)
qed

text \<open>The handler on a format selection of a user who has a record, with the dispatch
  on the data resolved.\<close>

lemma button_handler_format:
  assumes "pending_downloads s uid = Some entry"
  shows "button_handler w s uid (''format_'' @ x) =
     (let s0 = perform s (AnswerCallbackQuery None False) in
      if x \<notin> set SUPPORTED_FORMATS then safe_edit_text w s0 invalid_format_text None
      else
        (case safe_edit_text w s0 (downloading_text x) (Some ''Markdown'') of
           (Some e, s1) \<Rightarrow> (Some e, s1)
         | (None, s1) \<Rightarrow>
             (case run_spotdl w s1 (url entry) x ''downloads'' of
                (Inl e, s2) \<Rightarrow> (Some e, s2)
              | (Inr found, s2) \<Rightarrow>
                  if found = [] then
                    (case safe_edit_text w s2 failed_download_text None of
                       (Some e, s3) \<Rightarrow> (Some e, s3)
                     | (None, s3) \<Rightarrow> (None, cleanup s3 uid))
                  else
                    (case send_files w s2 x found of
                       (None, s3) \<Rightarrow> (None, cleanup s3 uid)
                     | (Some e, s3) \<Rightarrow>
                         (let c = ReplyText failed_send_text None None
                          in (telegram w c, cleanup (perform s3 c) uid))))))"
  using assms by (simp add: button_handler_def split1_def perform_def Let_def)

lemma safe_edit_text_state:
  "snd (safe_edit_text w s t pm) = perform s (EditMessageText t pm)"
  by (simp add: safe_edit_text_def Let_def split: option.splits exn.splits)

lemma safe_edit_text_returns:
  "telegram w (EditMessageText t pm) = None \<Longrightarrow> fst (safe_edit_text w s t pm) = None"
  by (simp add: safe_edit_text_def Let_def)

lemma pending_cleanup: "pending_downloads (cleanup s uid) uid = None"
  by (simp add: cleanup_def)

lemma disk_cleanup: "disk (cleanup s uid) ''downloads'' = None"
  by (simp add: cleanup_def path_exists_def rmtree_def)

lemma effects_cleanup: "effects (cleanup s uid) = effects s"
  by (simp add: cleanup_def)

lemma send_files_nonempty:
  assumes "found \<noteq> []"
  shows "\<exists>c. send_files w s fmt found = (telegram w c, perform s c)
           \<and> (is_document c \<longleftrightarrow> 1 < length found)
           \<and> (1 < length found \<longrightarrow>
                c = ReplyDocument (''spotify_download.'' @ fmt @ ''.zip'')
                      (map (\<lambda>p. (p, relpath p ''downloads'')) found)
                      (zip_caption (length found) fmt) (Some ''Markdown''))
           \<and> (length found = 1 \<longrightarrow>
                c = ReplyAudio (hd found) (audio_caption fmt) (Some ''Markdown''))"
  using assms by (cases found) (auto simp: send_files_def Let_def)

text \<open>The sample runs, evaluated.\<close>

lemma waiting_user: "pending_downloads waiting_state 7 = Some \<lparr>url = ''spotify:track:x''\<rparr>"
  by (simp add: waiting_state_def)

lemma mp3_supported: "''mp3'' \<in> set SUPPORTED_FORMATS"
  by (simp add: SUPPORTED_FORMATS_def)

lemma album_run:
  "run_spotdl album_world s u ''mp3'' ''downloads'' =
     (Inr [''downloads/a.mp3'', ''downloads/sub/c.mp3''],
      (perform s (SubprocessRun (spotdl_command u ''mp3'' ''downloads'') 300))
        \<lparr>disk := (disk s)(''downloads'' \<mapsto> album_tree)\<rparr>)"
  by (simp add: run_spotdl_def fresh_dir Let_def album_world_def
      os_walk_def album_tree_def path_join_def suffix_to_prefix)

lemma safe_edit_text_completes:
  "telegram w (EditMessageText t pm) = None \<Longrightarrow>
   safe_edit_text w s t pm = (None, perform s (EditMessageText t pm))"
  by (simp add: safe_edit_text_def Let_def)

lemma failed_download_telegram: "telegram failed_download_world c = None"
  by (simp add: failed_download_world_def)

lemma failed_download_run:
  "run_spotdl failed_download_world s u ''mp3'' ''downloads'' =
     (Inr [],
      (perform s (SubprocessRun (spotdl_command u ''mp3'' ''downloads'') 300))
        \<lparr>disk := (disk s)(''downloads'' \<mapsto> Dir [] [])\<rparr>)"
  by (simp add: run_spotdl_def fresh_dir Let_def failed_download_world_def)

lemma refusing_telegram:
  "telegram refusing_world c =
     (if is_document c \<or> c = ReplyText failed_send_text None None
      then Some (OtherException ''Request Entity Too Large'') else None)"
  by (simp add: refusing_world_def)

lemma refusing_run:
  "run_spotdl refusing_world s u ''mp3'' ''downloads'' =
     (Inr [''downloads/a.mp3'', ''downloads/sub/c.mp3''],
      (perform s (SubprocessRun (spotdl_command u ''mp3'' ''downloads'') 300))
        \<lparr>disk := (disk s)(''downloads'' \<mapsto> album_tree)\<rparr>)"
  by (simp add: run_spotdl_def fresh_dir Let_def refusing_world_def
      os_walk_def album_tree_def path_join_def suffix_to_prefix)

lemma album_telegram: "telegram album_world c = None"
  by (simp add: album_world_def)

text \<open>Once the list of downloaded files is not empty, the \<open>finally\<close> block runs whatever
  the sending call does: the record of the user and the directory are gone.\<close>

lemma cleanup_after_send:
  assumes "pending_downloads s uid = Some entry"
      and "fmt \<in> set SUPPORTED_FORMATS"
      and "safe_edit_text w (perform s (AnswerCallbackQuery None False))
             (downloading_text fmt) (Some ''Markdown'') = (None, s1)"
      and "run_spotdl w s1 (url entry) fmt ''downloads'' = (Inr found, s2)"
      and "found \<noteq> []"
  shows "pending_downloads (snd (button_handler w s uid (''format_'' @ fmt))) uid = None"
    and "disk (snd (button_handler w s uid (''format_'' @ fmt))) ''downloads'' = None"
  unfolding button_handler_format [OF assms(1)] Let_def
  using assms(2-5)
  by (auto simp: pending_cleanup disk_cleanup split: prod.splits option.splits)

section \<open>Claims about handle\_message\<close>

text \<open>
  C2. A text message is treated as a Spotify link, that is, the record of the user is set
  to the stripped text and the keyboard of the four formats is offered, if and only if
  the stripped text starts with one of the six prefixes; otherwise the reply says that
  the link is not valid.
\<close>

theorem handle_message_accepts_iff_prefix:
  "((pending_downloads (handle_message s uid t) uid = Some \<lparr>url = strip t\<rparr>
      \<and> effects (handle_message s uid t) =
          effects s @ [ReplyText choose_format_text
            (Some [[(''MP3'', ''format_mp3''), (''M4A'', ''format_m4a''),
                    (''FLAC'', ''format_flac''), (''OPUS'', ''format_opus'')]])
            (Some ''Markdown'')])
     \<longleftrightarrow>
       (prefix ''https://open.spotify.com/track/'' (strip t) \<or>
        prefix ''https://open.spotify.com/playlist/'' (strip t) \<or>
        prefix ''https://open.spotify.com/album/'' (strip t) \<or>
        prefix ''spotify:track:'' (strip t) \<or>
        prefix ''spotify:playlist:'' (strip t) \<or>
        prefix ''spotify:album:'' (strip t)))
   \<and> (\<not> (prefix ''https://open.spotify.com/track/'' (strip t) \<or>
           prefix ''https://open.spotify.com/playlist/'' (strip t) \<or>
           prefix ''https://open.spotify.com/album/'' (strip t) \<or>
           prefix ''spotify:track:'' (strip t) \<or>
           prefix ''spotify:playlist:'' (strip t) \<or>
           prefix ''spotify:album:'' (strip t))
        \<longrightarrow> effects (handle_message s uid t) =
              effects s @ [ReplyText invalid_url_text None None])"
proof (cases "list_ex (\<lambda>p. prefix p (strip t)) valid_prefixes")
  case True
  from handle_message_when_valid [OF True] True show ?thesis
    by (simp only: valid_prefixes_iff) simp
next
  case False
  from handle_message_when_invalid [OF False] False show ?thesis
    by (simp only: valid_prefixes_iff) simp
qed

theorem handle_message_accepts_iff_prefix_witness:
  "strip padded_link = ''spotify:track:abc''
   \<and> pending_downloads (handle_message waiting_state 3 padded_link) 3
       = Some \<lparr>url = ''spotify:track:abc''\<rparr>
   \<and> strip ''hello'' = ''hello''
   \<and> effects (handle_message waiting_state 3 ''hello'') = [ReplyText invalid_url_text None None]"
proof -
  from handle_message_accepts_iff_prefix
         [where s = waiting_state and uid = 3 and t = padded_link]
       handle_message_accepts_iff_prefix
         [where s = waiting_state and uid = 3 and t = "''hello''"]
  show ?thesis
    unfolding strip_samples by (simp add: waiting_state_def)
qed

text \<open>
  C5. After a message whose stripped text starts with one of the prefixes, the map of
  pending downloads is the old one with the record of the user set to that text: what
  was stored for the user before is overwritten, the records of the other users are
  kept, and the user has this one record.
\<close>

theorem handle_message_overwrites:
  assumes "prefix ''https://open.spotify.com/track/'' (strip t) \<or>
           prefix ''https://open.spotify.com/playlist/'' (strip t) \<or>
           prefix ''https://open.spotify.com/album/'' (strip t) \<or>
           prefix ''spotify:track:'' (strip t) \<or>
           prefix ''spotify:playlist:'' (strip t) \<or>
           prefix ''spotify:album:'' (strip t)"
  shows "pending_downloads (handle_message s uid t) =
           (pending_downloads s)(uid \<mapsto> \<lparr>url = strip t\<rparr>)"
proof -
  from assms have "list_ex (\<lambda>p. prefix p (strip t)) valid_prefixes"
    by (simp add: valid_prefixes_iff)
  from handle_message_when_valid [OF this] show ?thesis by simp
qed

theorem handle_message_overwrites_witness:
  "pending_downloads waiting_state 7 = Some \<lparr>url = ''spotify:track:x''\<rparr>
   \<and> strip (''spotify:album:new'' @ [CHR 0xE3, CHR 0x80, CHR 0x80]) = ''spotify:album:new''
   \<and> pending_downloads
        (handle_message waiting_state 7 (''spotify:album:new'' @ [CHR 0xE3, CHR 0x80, CHR 0x80])) 7
       = Some \<lparr>url = ''spotify:album:new''\<rparr>"
proof -
  let ?t = "''spotify:album:new'' @ [CHR 0xE3, CHR 0x80, CHR 0x80]"
  have h: "prefix ''https://open.spotify.com/track/'' (strip ?t) \<or>
           prefix ''https://open.spotify.com/playlist/'' (strip ?t) \<or>
           prefix ''https://open.spotify.com/album/'' (strip ?t) \<or>
           prefix ''spotify:track:'' (strip ?t) \<or>
           prefix ''spotify:playlist:'' (strip ?t) \<or>
           prefix ''spotify:album:'' (strip ?t)"
    unfolding strip_samples by simp
  from handle_message_overwrites [OF h, where s = waiting_state and uid = 7] show ?thesis
    unfolding strip_samples by (simp add: waiting_user)
qed

text \<open>
  C6, as the claim states it, does not hold: a text that starts with a space and then a
  link starts with none of the prefixes, yet the stripped text does, and the user gets a
  record.
\<close>

theorem leading_space_counterexample:
  "\<not> (prefix ''https://open.spotify.com/track/'' '' spotify:track:abc'' \<or>
      prefix ''https://open.spotify.com/playlist/'' '' spotify:track:abc'' \<or>
      prefix ''https://open.spotify.com/album/'' '' spotify:track:abc'' \<or>
      prefix ''spotify:track:'' '' spotify:track:abc'' \<or>
      prefix ''spotify:playlist:'' '' spotify:track:abc'' \<or>
      prefix ''spotify:album:'' '' spotify:track:abc'')
   \<and> pending_downloads waiting_state 3 = None
   \<and> pending_downloads (handle_message waiting_state 3 '' spotify:track:abc'') 3
       = Some \<lparr>url = ''spotify:track:abc''\<rparr>"
proof -
  have "list_ex (\<lambda>p. prefix p (strip '' spotify:track:abc'')) valid_prefixes"
    unfolding strip_samples by (simp add: valid_prefixes_def)
  from handle_message_when_valid [OF this, where s = waiting_state and uid = 3] show ?thesis
    unfolding strip_samples by (simp add: waiting_state_def)
qed

text \<open>
  C6, amended. A message whose stripped text starts with none of the prefixes leaves
  the map of pending downloads as it was: no record is created, changed or deleted.
\<close>

theorem handle_message_invalid_keeps_pending:
  assumes "\<not> (prefix ''https://open.spotify.com/track/'' (strip t) \<or>
              prefix ''https://open.spotify.com/playlist/'' (strip t) \<or>
              prefix ''https://open.spotify.com/album/'' (strip t) \<or>
              prefix ''spotify:track:'' (strip t) \<or>
              prefix ''spotify:playlist:'' (strip t) \<or>
              prefix ''spotify:album:'' (strip t))"
  shows "pending_downloads (handle_message s uid t) = pending_downloads s"
proof -
  from assms have "\<not> list_ex (\<lambda>p. prefix p (strip t)) valid_prefixes"
    by (simp add: valid_prefixes_iff)
  from handle_message_when_invalid [OF this] show ?thesis by simp
qed

theorem handle_message_invalid_keeps_pending_witness:
  "strip ''https://open.spotify.com/artist/1'' = ''https://open.spotify.com/artist/1''
   \<and> pending_downloads (handle_message waiting_state 7 ''https://open.spotify.com/artist/1'')
       = [7 \<mapsto> \<lparr>url = ''spotify:track:x''\<rparr>]"
proof -
  let ?t = "''https://open.spotify.com/artist/1''"
  have h: "\<not> (prefix ''https://open.spotify.com/track/'' (strip ?t) \<or>
              prefix ''https://open.spotify.com/playlist/'' (strip ?t) \<or>
              prefix ''https://open.spotify.com/album/'' (strip ?t) \<or>
              prefix ''spotify:track:'' (strip ?t) \<or>
              prefix ''spotify:playlist:'' (strip ?t) \<or>
              prefix ''spotify:album:'' (strip ?t))"
    unfolding strip_samples by simp
  from handle_message_invalid_keeps_pending [OF h, where s = waiting_state and uid = 7]
  show ?thesis
    unfolding strip_samples by (simp add: waiting_state_def)
qed

section \<open>Claims about run\_spotdl\<close>

text \<open>
  C4. When the downloader exits with return code 0, \<open>run_spotdl\<close> returns a list whose
  elements are exactly the files at or below the download directory, as the downloader
  left it, whose name ends with a dot and the requested format; a file of another
  extension is not in the list.
\<close>

theorem run_spotdl_collects:
  assumes "subprocess_run w (spotdl_command u fmt d) ((disk s)(d \<mapsto> Dir [] []))
             = (CompletedProcess 0 err, fs')"
  shows "\<exists>found. fst (run_spotdl w s u fmt d) = Inr found \<and>
           set found = {path_join r f | r f. (r, f) \<in> files_under fs' d \<and> suffix (''.'' @ fmt) f}"
  using assms by (simp add: run_spotdl_def fresh_dir Let_def set_collected)

theorem run_spotdl_collects_witness:
  "subprocess_run album_world (spotdl_command ''u'' ''mp3'' ''downloads'')
       ((disk waiting_state)(''downloads'' \<mapsto> Dir [] []))
     = (CompletedProcess 0 [], [''downloads'' \<mapsto> album_tree])
   \<and> fst (run_spotdl album_world waiting_state ''u'' ''mp3'' ''downloads'')
       = Inr [''downloads/a.mp3'', ''downloads/sub/c.mp3'']
   \<and> {path_join r f | r f. (r, f) \<in> files_under [''downloads'' \<mapsto> album_tree] ''downloads''
                            \<and> suffix ''.mp3'' f}
       = {''downloads/a.mp3'', ''downloads/sub/c.mp3''}"
proof -
  have h: "subprocess_run album_world (spotdl_command ''u'' ''mp3'' ''downloads'')
       ((disk waiting_state)(''downloads'' \<mapsto> Dir [] []))
     = (CompletedProcess 0 [], [''downloads'' \<mapsto> album_tree])"
    by (simp add: album_world_def waiting_state_def)
  have r: "fst (run_spotdl album_world waiting_state ''u'' ''mp3'' ''downloads'')
       = Inr [''downloads/a.mp3'', ''downloads/sub/c.mp3'']"
    by (simp add: album_run)
  from run_spotdl_collects [OF h] r h show ?thesis by auto
qed

text \<open>
  C7. When the external command runs into the timeout or exits with a return code other
  than 0, \<open>run_spotdl\<close> returns the empty list and raises nothing; it returns a list
  that is not empty only when the command has exited with return code 0.
\<close>

theorem run_spotdl_failures:
  "(fst (subprocess_run w (spotdl_command u fmt d) ((disk s)(d \<mapsto> Dir [] [])))
        = Raises TimeoutExpired
     \<or> (\<exists>rc err. fst (subprocess_run w (spotdl_command u fmt d) ((disk s)(d \<mapsto> Dir [] [])))
                    = CompletedProcess rc err \<and> rc \<noteq> 0)
     \<longrightarrow> fst (run_spotdl w s u fmt d) = Inr [])
   \<and> (\<forall>found. fst (run_spotdl w s u fmt d) = Inr found \<and> found \<noteq> [] \<longrightarrow>
         (\<exists>err. fst (subprocess_run w (spotdl_command u fmt d) ((disk s)(d \<mapsto> Dir [] [])))
                  = CompletedProcess 0 err))"
  by (auto simp: run_spotdl_def fresh_dir Let_def
           split: prod.splits run_result.splits exn.splits if_splits)

theorem run_spotdl_failures_witness:
  "fst (subprocess_run lost_message_world (spotdl_command ''u'' ''mp3'' ''downloads'')
         ((disk waiting_state)(''downloads'' \<mapsto> Dir [] []))) = CompletedProcess 1 ''error''
   \<and> fst (run_spotdl lost_message_world waiting_state ''u'' ''mp3'' ''downloads'') = Inr []
   \<and> fst (run_spotdl album_world waiting_state ''u'' ''mp3'' ''downloads'')
       = Inr [''downloads/a.mp3'', ''downloads/sub/c.mp3'']
   \<and> (\<exists>err. fst (subprocess_run album_world (spotdl_command ''u'' ''mp3'' ''downloads'')
                 ((disk waiting_state)(''downloads'' \<mapsto> Dir [] []))) = CompletedProcess 0 err)"
proof -
  have h: "fst (subprocess_run lost_message_world (spotdl_command ''u'' ''mp3'' ''downloads'')
         ((disk waiting_state)(''downloads'' \<mapsto> Dir [] []))) = CompletedProcess 1 ''error''"
    by (simp add: lost_message_world_def)
  have r: "fst (run_spotdl album_world waiting_state ''u'' ''mp3'' ''downloads'')
       = Inr [''downloads/a.mp3'', ''downloads/sub/c.mp3'']"
    by (simp add: album_run)
  from run_spotdl_failures
         [where w = lost_message_world and s = waiting_state and u = "''u''" and fmt = "''mp3''"
            and d = "''downloads''"]
       run_spotdl_failures
         [where w = album_world and s = waiting_state and u = "''u''" and fmt = "''mp3''"
            and d = "''downloads''"]
       h r
  show ?thesis by auto
qed

section \<open>Claims about button\_handler\<close>

text \<open>
  C1, as the claim states it, does not hold: a user who has a record and presses a button
  whose data starts with \<open>format_\<close> still has the record afterwards when the format
  is not a supported one.
\<close>

theorem format_selection_counterexample:
  "pending_downloads waiting_state 7 \<noteq> None \<and> prefix ''format_'' ''format_wav'' \<and>
   pending_downloads (snd (button_handler album_world waiting_state 7 ''format_wav'')) 7 \<noteq> None"
  by (simp add: button_handler_def split1_def SUPPORTED_FORMATS_def safe_edit_text_def
      perform_def waiting_state_def album_world_def Let_def)

text \<open>
  C1, amended. For a user who has a record and selects one of the supported formats,
  once the progress edit has completed and \<open>run_spotdl\<close> has returned its list, the
  record of the user is removed by the end of the handler: for a list that is not empty
  whatever the sending calls do, also when an exception escapes, and for the empty list
  when the edit that reports the failure completes.
\<close>

theorem record_removed_after_download:
  assumes "pending_downloads s uid = Some entry"
      and "fmt \<in> set SUPPORTED_FORMATS"
      and "safe_edit_text w (perform s (AnswerCallbackQuery None False))
             (downloading_text fmt) (Some ''Markdown'') = (None, s1)"
      and "run_spotdl w s1 (url entry) fmt ''downloads'' = (Inr found, s2)"
      and "found = [] \<longrightarrow> fst (safe_edit_text w s2 failed_download_text None) = None"
  shows "pending_downloads (snd (button_handler w s uid (''format_'' @ fmt))) uid = None"
proof (cases "found = []")
  case True
  with assms(5) obtain s3 where "safe_edit_text w s2 failed_download_text None = (None, s3)"
    by (metis prod.collapse)
  with True assms(2-4) show ?thesis
    unfolding button_handler_format [OF assms(1)] Let_def
    by (simp add: pending_cleanup)
next
  case False
  from cleanup_after_send(1) [OF assms(1-4) False] show ?thesis .
qed

theorem record_removed_after_download_witness:
  "pending_downloads waiting_state 7 = Some \<lparr>url = ''spotify:track:x''\<rparr>
   \<and> fst (button_handler failed_download_world waiting_state 7 (''format_'' @ ''mp3'')) = None
   \<and> pending_downloads
        (snd (button_handler failed_download_world waiting_state 7 (''format_'' @ ''mp3''))) 7
       = None
   \<and> fst (button_handler refusing_world waiting_state 7 (''format_'' @ ''mp3''))
       = Some (OtherException ''Request Entity Too Large'')
   \<and> pending_downloads
        (snd (button_handler refusing_world waiting_state 7 (''format_'' @ ''mp3''))) 7
       = None"
proof -
  let ?s1 = "perform (perform waiting_state (AnswerCallbackQuery None False))
               (EditMessageText (downloading_text ''mp3'') (Some ''Markdown''))"
  let ?run = "perform ?s1
                (SubprocessRun (spotdl_command ''spotify:track:x'' ''mp3'' ''downloads'') 300)"
  let ?s2 = "?run\<lparr>disk := (disk ?s1)(''downloads'' \<mapsto> Dir [] [])\<rparr>"
  let ?s2' = "?run\<lparr>disk := (disk ?s1)(''downloads'' \<mapsto> album_tree)\<rparr>"
  let ?found = "[''downloads/a.mp3'', ''downloads/sub/c.mp3'']"
  have e: "safe_edit_text failed_download_world
             (perform waiting_state (AnswerCallbackQuery None False))
             (downloading_text ''mp3'') (Some ''Markdown'') = (None, ?s1)"
    by (simp add: safe_edit_text_completes failed_download_telegram)
  have r0: "run_spotdl failed_download_world ?s1 ''spotify:track:x'' ''mp3'' ''downloads''
              = (Inr [], ?s2)"
    by (simp add: failed_download_run)
  then have r: "run_spotdl failed_download_world ?s1 (url \<lparr>url = ''spotify:track:x''\<rparr>) ''mp3''
             ''downloads'' = (Inr [], ?s2)"
    by simp
  have n: "[] = ([] :: string list) \<longrightarrow>
           fst (safe_edit_text failed_download_world ?s2 failed_download_text None) = None"
    by (simp add: safe_edit_text_completes failed_download_telegram)
  have e': "safe_edit_text refusing_world
             (perform waiting_state (AnswerCallbackQuery None False))
             (downloading_text ''mp3'') (Some ''Markdown'') = (None, ?s1)"
    by (simp add: safe_edit_text_completes refusing_telegram)
  have r0': "run_spotdl refusing_world ?s1 ''spotify:track:x'' ''mp3'' ''downloads''
               = (Inr ?found, ?s2')"
    by (simp add: refusing_run)
  then have r': "run_spotdl refusing_world ?s1 (url \<lparr>url = ''spotify:track:x''\<rparr>) ''mp3''
             ''downloads'' = (Inr ?found, ?s2')"
    by simp
  have n': "?found = [] \<longrightarrow>
           fst (safe_edit_text refusing_world ?s2' failed_download_text None) = None"
    by simp
  have x: "fst (button_handler failed_download_world waiting_state 7 (''format_'' @ ''mp3''))
             = None"
    unfolding button_handler_format [OF waiting_user] Let_def
    by (simp add: mp3_supported e r0 safe_edit_text_completes failed_download_telegram)
  have x': "fst (button_handler refusing_world waiting_state 7 (''format_'' @ ''mp3''))
             = Some (OtherException ''Request Entity Too Large'')"
    unfolding button_handler_format [OF waiting_user] Let_def
    by (simp add: mp3_supported e' r0' send_files_def refusing_telegram Let_def)
  from record_removed_after_download [OF waiting_user mp3_supported e r n]
       record_removed_after_download [OF waiting_user mp3_supported e' r' n']
       waiting_user x x'
  show ?thesis by blast
qed

text \<open>
  C3. When a format selection has produced a list of downloaded files that is not empty,
  the handler makes one sending call after the download: it is a document, the zip
  archive with every file of the list as a member, if and only if the list has more than
  one element, and for a list of one element it is that file as an audio message.
  Whatever follows is neither a document nor an audio message.
\<close>

theorem zip_iff_more_than_one:
  assumes "pending_downloads s uid = Some entry"
      and "fmt \<in> set SUPPORTED_FORMATS"
      and "safe_edit_text w (perform s (AnswerCallbackQuery None False))
             (downloading_text fmt) (Some ''Markdown'') = (None, s1)"
      and "run_spotdl w s1 (url entry) fmt ''downloads'' = (Inr found, s2)"
      and "found \<noteq> []"
  shows "\<exists>c rest.
           effects (snd (button_handler w s uid (''format_'' @ fmt))) = effects s2 @ c # rest
           \<and> (\<forall>e \<in> set rest. \<not> is_document e \<and> \<not> is_audio e)
           \<and> (is_document c \<longleftrightarrow> 1 < length found)
           \<and> (1 < length found \<longrightarrow>
                c = ReplyDocument (''spotify_download.'' @ fmt @ ''.zip'')
                      (map (\<lambda>p. (p, relpath p ''downloads'')) found)
                      (zip_caption (length found) fmt) (Some ''Markdown''))
           \<and> (length found = 1 \<longrightarrow>
                c = ReplyAudio (hd found) (audio_caption fmt) (Some ''Markdown''))"
proof -
  from send_files_nonempty [OF assms(5)] obtain c where
    c: "send_files w s2 fmt found = (telegram w c, perform s2 c)"
    and shape: "is_document c \<longleftrightarrow> 1 < length found"
      "1 < length found \<longrightarrow>
         c = ReplyDocument (''spotify_download.'' @ fmt @ ''.zip'')
               (map (\<lambda>p. (p, relpath p ''downloads'')) found)
               (zip_caption (length found) fmt) (Some ''Markdown'')"
      "length found = 1 \<longrightarrow> c = ReplyAudio (hd found) (audio_caption fmt) (Some ''Markdown'')"
    by blast
  let ?rest = "if telegram w c = None then [] else [ReplyText failed_send_text None None]"
  have "effects (snd (button_handler w s uid (''format_'' @ fmt))) = effects s2 @ c # ?rest"
    unfolding button_handler_format [OF assms(1)] Let_def
    using assms(2-5) c
    by (cases "telegram w c") (simp_all add: effects_cleanup perform_def)
  moreover have "\<forall>e \<in> set ?rest. \<not> is_document e \<and> \<not> is_audio e"
    by simp
  ultimately show ?thesis using shape by blast
qed

theorem zip_iff_more_than_one_witness:
  "\<exists>c rest.
     effects (snd (button_handler album_world waiting_state 7 (''format_'' @ ''mp3''))) =
       [AnswerCallbackQuery None False,
        EditMessageText (downloading_text ''mp3'') (Some ''Markdown''),
        SubprocessRun (spotdl_command ''spotify:track:x'' ''mp3'' ''downloads'') 300] @ c # rest
     \<and> c = ReplyDocument ''spotify_download.mp3.zip''
             [(''downloads/a.mp3'', ''a.mp3''), (''downloads/sub/c.mp3'', ''sub/c.mp3'')]
             (zip_caption 2 ''mp3'') (Some ''Markdown'')"
proof -
  let ?s1 = "perform (perform waiting_state (AnswerCallbackQuery None False))
               (EditMessageText (downloading_text ''mp3'') (Some ''Markdown''))"
  let ?s2 = "(perform ?s1
                (SubprocessRun (spotdl_command ''spotify:track:x'' ''mp3'' ''downloads'') 300))
               \<lparr>disk := (disk ?s1)(''downloads'' \<mapsto> album_tree)\<rparr>"
  let ?found = "[''downloads/a.mp3'', ''downloads/sub/c.mp3'']"
  have h3: "safe_edit_text album_world (perform waiting_state (AnswerCallbackQuery None False))
             (downloading_text ''mp3'') (Some ''Markdown'') = (None, ?s1)"
    by (simp add: safe_edit_text_def album_telegram Let_def)
  have h4: "run_spotdl album_world ?s1 (url \<lparr>url = ''spotify:track:x''\<rparr>) ''mp3'' ''downloads''
              = (Inr ?found, ?s2)"
    by (simp add: album_run)
  have h5: "?found \<noteq> []" by simp
  from zip_iff_more_than_one [OF waiting_user mp3_supported h3 h4 h5] show ?thesis
    by (auto simp: perform_def waiting_state_def relpath_def numeral_2_eq_2)
qed

text \<open>
  C8. When a user who has a record presses a button whose data is \<open>format_X\<close> with
  \<open>X\<close> none of mp3, m4a, flac, opus, the handler answers the callback, edits the
  message to say that the format is not valid, and does nothing more: the records and
  the file system are as before and no command has been run. It returns; an exception
  escapes only when the edit itself raises.
\<close>

theorem invalid_format_rejected:
  assumes "pending_downloads s uid = Some entry"
      and "X \<notin> {''mp3'', ''m4a'', ''flac'', ''opus''}"
  shows "snd (button_handler w s uid (''format_'' @ X)) =
           s\<lparr>effects := effects s @ [AnswerCallbackQuery None False,
                                     EditMessageText invalid_format_text None]\<rparr>
         \<and> (telegram w (EditMessageText invalid_format_text None) = None
              \<longrightarrow> fst (button_handler w s uid (''format_'' @ X)) = None)"
proof -
  from assms(2) have "X \<notin> set SUPPORTED_FORMATS" by (simp add: SUPPORTED_FORMATS_def)
  then have "button_handler w s uid (''format_'' @ X) =
      safe_edit_text w (perform s (AnswerCallbackQuery None False)) invalid_format_text None"
    unfolding button_handler_format [OF assms(1)] by (simp add: Let_def)
  then show ?thesis
    by (simp add: safe_edit_text_state safe_edit_text_returns perform_def)
qed

theorem invalid_format_rejected_witness:
  "pending_downloads waiting_state 7 = Some \<lparr>url = ''spotify:track:x''\<rparr>
   \<and> ''wav'' \<notin> {''mp3'', ''m4a'', ''flac'', ''opus''}
   \<and> snd (button_handler album_world waiting_state 7 (''format_'' @ ''wav'')) =
        waiting_state\<lparr>effects := [AnswerCallbackQuery None False,
                                   EditMessageText invalid_format_text None]\<rparr>
   \<and> fst (button_handler album_world waiting_state 7 (''format_'' @ ''wav'')) = None"
proof -
  have h2: "''wav'' \<notin> {''mp3'', ''m4a'', ''flac'', ''opus''}"
    by simp
  have h3: "telegram album_world (EditMessageText invalid_format_text None) = None"
    by (rule album_telegram)
  from invalid_format_rejected [OF waiting_user h2, of album_world] waiting_user h2 h3
  show ?thesis by (simp add: waiting_state_def)
qed

text \<open>
  C9. The directory \<open>downloads\<close> is to be gone at the end of every format selection
  that reaches the download. On the path of a failed download it is not: the downloader
  exits with 1, the edit that reports the failure raises because the message is gone,
  the exception escapes, and the directory that \<open>run_spotdl\<close> created is still there,
  as is the record of the user.
\<close>

theorem failure_notice_skips_cleanup:
  "fst (button_handler lost_message_world waiting_state 7 ''format_mp3'')
     = Some (BadRequest ''Message to edit not found'')
   \<and> disk (snd (button_handler lost_message_world waiting_state 7 ''format_mp3'')) ''downloads''
     = Some (Dir [] [])
   \<and> pending_downloads (snd (button_handler lost_message_world waiting_state 7 ''format_mp3'')) 7
     = Some \<lparr>url = ''spotify:track:x''\<rparr>"
  by (simp add: button_handler_def split1_def SUPPORTED_FORMATS_def safe_edit_text_def
      perform_def waiting_state_def lost_message_world_def Let_def run_spotdl_def fresh_dir
      downloading_text_def failed_download_text_def sublist_code)

end
